theory Spec2Isabelle
  imports Main
begin

section \<open>Entity store\<close>

text \<open>
  The tables of \<^verbatim>\<open>app/models\<close>. A table is the list of its rows in the order
  in which a query without \<^verbatim>\<open>ORDER BY\<close> returns them; a row that is updated
  keeps its place in the list.
  Identifiers (\<^verbatim>\<open>UUID\<close> columns) are natural numbers, timestamps
  (\<^verbatim>\<open>func.now()\<close>) are natural numbers handed to each operation by its caller,
  Python integers are \<open>int\<close>, and a nullable column or an \<^verbatim>\<open>Optional\<close>
  field is an \<open>option\<close>. The counters \<^verbatim>\<open>current_load\<close> and
  \<^verbatim>\<open>max_load\<close> are always read as integers by the endpoints and are plain
  \<open>int\<close> here.
\<close>

type_synonym uuid = nat
type_synonym timestamp = nat
type_synonym json = "(string \<times> string) list"

datatype UserRole = ADMIN | MANAGER | AGENT

datatype AgentStatus = AVAILABLE | BUSY | OFFLINE | ON_BREAK

datatype AssignmentStatus = PENDING | IN_PROGRESS | COMPLETED | CANCELLED | OVERDUE

datatype ApprovalStatus = APPROVAL_PENDING | APPROVED | REJECTED | UNDER_REVIEW

record User =
  u_id :: uuid
  u_role :: UserRole

record Meter =
  m_id :: uuid
  m_serial_number :: string
  m_address :: string

record Agent =
  a_id :: uuid
  a_user_id :: uuid
  a_current_load :: int
  a_max_load :: int
  a_status :: AgentStatus

record MeterAssignment =
  ma_id :: uuid
  ma_meter_id :: uuid
  ma_agent_id :: uuid
  ma_status :: AssignmentStatus
  ma_estimated_time :: "int option"
  ma_assigned_at :: "timestamp option"
  ma_completed_at :: "timestamp option"
  ma_completion_notes :: "string option"

record MeterApprovalRequest =
  r_id :: uuid
  r_meter_id :: uuid
  r_agent_id :: uuid
  r_reviewer_id :: "uuid option"
  r_meter_data :: json
  r_status :: ApprovalStatus
  r_submission_notes :: "string option"
  r_review_notes :: "string option"
  r_submitted_at :: "timestamp option"
  r_reviewed_at :: "timestamp option"

text \<open>Of a reading the keys and the time are kept.\<close>

record MeterReading =
  mr_id :: uuid
  mr_meter_id :: uuid
  mr_agent_id :: uuid
  mr_reading_timestamp :: timestamp

record db =
  meters :: "Meter list"
  agents :: "Agent list"
  meter_assignments :: "MeterAssignment list"
  meter_approval_requests :: "MeterApprovalRequest list"
  meter_readings :: "MeterReading list"

subsection \<open>Errors\<close>

text \<open>
  Every \<^verbatim>\<open>raise HTTPException(status_code, detail)\<close> of the endpoints is a value
  \<open>HTTPException code detail\<close>; the detail messages of the source are the
  constructors of \<open>detail\<close>. \<open>MultipleResultsFound\<close> is what
  \<^verbatim>\<open>scalar_one_or_none()\<close> raises on a result of two or more rows,
  \<open>IntegrityError\<close> what the commit raises when a write puts NULL into a column
  declared \<^verbatim>\<open>nullable=False\<close>, and \<open>AttributeError\<close> what Python raises
  for an attribute that a value does not have. An operation returns \<open>Inl\<close> of the
  error, and then nothing has been committed: the store stays the one the operation was
  called on.
\<close>

datatype detail =
    Meter_not_found
  | Meter_id_not_found uuid
  | Agent_not_found
  | Agent_profile_not_found
  | User_is_not_an_agent
  | Meter_is_already_assigned
  | No_available_agents_found
  | Assignment_not_found
  | Approval_request_not_found
  | Request_is_not_pending_approval
  | Cannot_delete_meter_with_active_assignments

datatype error =
    HTTPException nat detail
  | MultipleResultsFound
  | IntegrityError
  | AttributeError

definition HTTP_400_BAD_REQUEST :: nat where
  "HTTP_400_BAD_REQUEST = 400"

definition HTTP_403_FORBIDDEN :: nat where
  "HTTP_403_FORBIDDEN = 403"

definition HTTP_404_NOT_FOUND :: nat where
  "HTTP_404_NOT_FOUND = 404"

subsection \<open>Queries\<close>

text \<open>
  \<^verbatim>\<open>scalar_one_or_none()\<close> on the rows of a query. A query on the primary key
  (or on a unique column) has at most one row and is written with \<open>find\<close>; a change
  of the object it returned is a change of that row, \<open>update_first\<close>.
\<close>

definition scalar_one_or_none :: "'a list \<Rightarrow> error + 'a option" where
  "scalar_one_or_none rows =
     (case rows of
        [] \<Rightarrow> Inr None
      | [row] \<Rightarrow> Inr (Some row)
      | _ # _ # _ \<Rightarrow> Inl MultipleResultsFound)"

fun update_first :: "('a \<Rightarrow> bool) \<Rightarrow> ('a \<Rightarrow> 'a) \<Rightarrow> 'a list \<Rightarrow> 'a list" where
  "update_first P f [] = []"
| "update_first P f (x # xs) = (if P x then f x # xs else x # update_first P f xs)"

definition get_meter :: "db \<Rightarrow> uuid \<Rightarrow> Meter option" where
  "get_meter s meter_id = find (\<lambda>m. m_id m = meter_id) (meters s)"

definition get_agent :: "db \<Rightarrow> uuid \<Rightarrow> Agent option" where
  "get_agent s agent_id = find (\<lambda>a. a_id a = agent_id) (agents s)"

definition get_assignment :: "db \<Rightarrow> uuid \<Rightarrow> MeterAssignment option" where
  "get_assignment s assignment_id = find (\<lambda>a. ma_id a = assignment_id) (meter_assignments s)"

definition get_request :: "db \<Rightarrow> uuid \<Rightarrow> MeterApprovalRequest option" where
  "get_request s request_id = find (\<lambda>r. r_id r = request_id) (meter_approval_requests s)"

section \<open>Approval workflow (\<^verbatim>\<open>endpoints/approvals.py\<close>)\<close>

text \<open>
  \<^verbatim>\<open>approve_request\<close> takes \<^verbatim>\<open>review_notes: Optional[str] = None\<close>,
  \<^verbatim>\<open>reject_request\<close> takes \<^verbatim>\<open>review_notes: str\<close>.
\<close>

definition approve_request ::
  "uuid \<Rightarrow> string option \<Rightarrow> User \<Rightarrow> timestamp \<Rightarrow> db \<Rightarrow> error + db" where
  "approve_request request_id review_notes current_user now s =
     (case get_request s request_id of
        None \<Rightarrow> Inl (HTTPException HTTP_404_NOT_FOUND Approval_request_not_found)
      | Some approval_request \<Rightarrow>
          if r_status approval_request \<noteq> APPROVAL_PENDING
          then Inl (HTTPException HTTP_400_BAD_REQUEST Request_is_not_pending_approval)
          else Inr (s\<lparr>meter_approval_requests :=
                 update_first (\<lambda>r. r_id r = request_id)
                   (\<lambda>r. r\<lparr>r_status := APPROVED,
                          r_reviewer_id := Some (u_id current_user),
                          r_review_notes := review_notes,
                          r_reviewed_at := Some now\<rparr>)
                   (meter_approval_requests s)\<rparr>))"

definition reject_request ::
  "uuid \<Rightarrow> string \<Rightarrow> User \<Rightarrow> timestamp \<Rightarrow> db \<Rightarrow> error + db" where
  "reject_request request_id review_notes current_user now s =
     (case get_request s request_id of
        None \<Rightarrow> Inl (HTTPException HTTP_404_NOT_FOUND Approval_request_not_found)
      | Some approval_request \<Rightarrow>
          if r_status approval_request \<noteq> APPROVAL_PENDING
          then Inl (HTTPException HTTP_400_BAD_REQUEST Request_is_not_pending_approval)
          else Inr (s\<lparr>meter_approval_requests :=
                 update_first (\<lambda>r. r_id r = request_id)
                   (\<lambda>r. r\<lparr>r_status := REJECTED,
                          r_reviewer_id := Some (u_id current_user),
                          r_review_notes := Some review_notes,
                          r_reviewed_at := Some now\<rparr>)
                   (meter_approval_requests s)\<rparr>))"

section \<open>Meters (\<^verbatim>\<open>endpoints/meters.py\<close>)\<close>

definition is_active :: "MeterAssignment \<Rightarrow> bool" where
  "is_active a \<longleftrightarrow> ma_status a = PENDING \<or> ma_status a = IN_PROGRESS"

text \<open>
  The rows of \<^verbatim>\<open>select(MeterAssignment).where(and_(meter_id == m, status.in_([PENDING, IN_PROGRESS])))\<close>.
\<close>

definition active_assignments :: "MeterAssignment list \<Rightarrow> uuid \<Rightarrow> MeterAssignment list" where
  "active_assignments rows meter_id = filter (\<lambda>a. ma_meter_id a = meter_id \<and> is_active a) rows"

text \<open>
  The relationships \<^verbatim>\<open>readings\<close>, \<^verbatim>\<open>assignments\<close> and
  \<^verbatim>\<open>approval_requests\<close> of \<^verbatim>\<open>Meter\<close> have no delete cascade: when the
  meter is deleted the session sets the \<^verbatim>\<open>meter_id\<close> of every row that refers
  to it to NULL. The three columns are \<^verbatim>\<open>nullable=False\<close>, so with any such
  row the commit raises \<open>IntegrityError\<close>.
\<close>

definition refers_to_meter :: "db \<Rightarrow> uuid \<Rightarrow> bool" where
  "refers_to_meter s meter_id \<longleftrightarrow>
     list_ex (\<lambda>r. mr_meter_id r = meter_id) (meter_readings s) \<or>
     list_ex (\<lambda>a. ma_meter_id a = meter_id) (meter_assignments s) \<or>
     list_ex (\<lambda>r. r_meter_id r = meter_id) (meter_approval_requests s)"

text \<open>\<^verbatim>\<open>delete_meter\<close>, with \<^verbatim>\<open>db.delete(meter)\<close> and the commit.\<close>

definition delete_meter :: "uuid \<Rightarrow> db \<Rightarrow> error + db" where
  "delete_meter meter_id s =
     (case get_meter s meter_id of
        None \<Rightarrow> Inl (HTTPException HTTP_404_NOT_FOUND Meter_not_found)
      | Some meter \<Rightarrow>
          if active_assignments (meter_assignments s) meter_id \<noteq> []
          then Inl (HTTPException HTTP_400_BAD_REQUEST Cannot_delete_meter_with_active_assignments)
          else if refers_to_meter s meter_id
          then Inl IntegrityError
          else Inr (s\<lparr>meters := filter (\<lambda>m. m_id m \<noteq> meter_id) (meters s)\<rparr>))"

section \<open>Assignment engine (\<^verbatim>\<open>endpoints/assignments.py\<close>)\<close>

text \<open>
  The request bodies of \<^verbatim>\<open>schemas/meter_assignment.py\<close>. A field of
  \<^verbatim>\<open>MeterAssignmentUpdate\<close> is declared \<^verbatim>\<open>Optional[...] = None\<close>: the
  request leaves it out (\<open>Unset\<close>), sends it as null (\<open>Sent None\<close>) or sends a
  value (\<open>Sent (Some v)\<close>). \<^verbatim>\<open>dict(exclude_unset=True)\<close> has a key for every
  field that was sent, null or not.
\<close>

datatype 'a sent = Unset | Sent "'a option"

record MeterAssignmentCreate =
  c_meter_id :: uuid
  c_agent_id :: uuid
  c_estimated_time :: "int option"

record BulkAssignmentRequest =
  b_meter_ids :: "uuid list"
  b_agent_id :: "uuid option"
  b_estimated_time :: "int option"

record MeterAssignmentUpdate =
  upd_status :: "AssignmentStatus sent"
  upd_estimated_time :: "int sent"
  upd_completion_notes :: "string sent"

text \<open>
  \<^verbatim>\<open>default=uuid.uuid4\<close>: the identifier of a new row is one that no row of the
  table has.
\<close>

definition uuid4 :: "uuid list \<Rightarrow> uuid" where
  "uuid4 used = Suc (fold max used 0)"

definition new_assignment :: "db \<Rightarrow> uuid \<Rightarrow> uuid \<Rightarrow> int option \<Rightarrow> timestamp \<Rightarrow> MeterAssignment" where
  "new_assignment s meter_id agent_id estimated_time now =
     \<lparr>ma_id = uuid4 (map ma_id (meter_assignments s)),
      ma_meter_id = meter_id,
      ma_agent_id = agent_id,
      ma_status = PENDING,
      ma_estimated_time = estimated_time,
      ma_assigned_at = Some now,
      ma_completed_at = None,
      ma_completion_notes = None\<rparr>"

definition create_assignment ::
  "MeterAssignmentCreate \<Rightarrow> timestamp \<Rightarrow> db \<Rightarrow> error + MeterAssignment \<times> db" where
  "create_assignment assignment_data now s =
     (case get_meter s (c_meter_id assignment_data) of
        None \<Rightarrow> Inl (HTTPException HTTP_404_NOT_FOUND Meter_not_found)
      | Some meter \<Rightarrow>
     (case get_agent s (c_agent_id assignment_data) of
        None \<Rightarrow> Inl (HTTPException HTTP_404_NOT_FOUND Agent_not_found)
      | Some agent \<Rightarrow>
     (case scalar_one_or_none
             (active_assignments (meter_assignments s) (c_meter_id assignment_data)) of
        Inl e \<Rightarrow> Inl e
      | Inr (Some existing_assignment) \<Rightarrow>
          Inl (HTTPException HTTP_400_BAD_REQUEST Meter_is_already_assigned)
      | Inr None \<Rightarrow>
          let a = new_assignment s (c_meter_id assignment_data) (c_agent_id assignment_data)
                    (c_estimated_time assignment_data) now
          in Inr (a, s\<lparr>meter_assignments := meter_assignments s @ [a],
                        agents := update_first (\<lambda>x. a_id x = a_id agent)
                                    (\<lambda>x. x\<lparr>a_current_load := a_current_load agent + 1\<rparr>)
                                    (agents s)\<rparr>))))"

text \<open>The first loop of \<^verbatim>\<open>bulk_assign\<close>: every requested meter exists.\<close>

fun verify_meters :: "db \<Rightarrow> uuid list \<Rightarrow> error + unit" where
  "verify_meters s [] = Inr ()"
| "verify_meters s (meter_id # meter_ids) =
     (case get_meter s meter_id of
        None \<Rightarrow> Inl (HTTPException HTTP_404_NOT_FOUND (Meter_id_not_found meter_id))
      | Some meter \<Rightarrow> verify_meters s meter_ids)"

text \<open>
  The rows of \<^verbatim>\<open>select(Agent).where(and_(status == "available", current_load < max_load))\<close>.
\<close>

definition available_agents :: "db \<Rightarrow> Agent list" where
  "available_agents s =
     filter (\<lambda>a. a_status a = AVAILABLE \<and> a_current_load a < a_max_load a) (agents s)"

text \<open>
  The second loop of \<^verbatim>\<open>bulk_assign\<close>, with \<^verbatim>\<open>assignments_created\<close> as an
  argument. The session flushes a new row before the next query, so the query of a later
  iteration sees the rows the earlier iterations added.
\<close>

fun assign_meters ::
  "uuid option \<Rightarrow> Agent list \<Rightarrow> int option \<Rightarrow> timestamp \<Rightarrow> uuid list \<Rightarrow> nat \<Rightarrow> db
     \<Rightarrow> error + nat \<times> db" where
  "assign_meters agent_id candidates estimated_time now [] assignments_created s =
     Inr (assignments_created, s)"
| "assign_meters agent_id candidates estimated_time now (meter_id # meter_ids) assignments_created s =
     (case scalar_one_or_none (active_assignments (meter_assignments s) meter_id) of
        Inl e \<Rightarrow> Inl e
      | Inr (Some existing_assignment) \<Rightarrow>
          assign_meters agent_id candidates estimated_time now meter_ids assignments_created s
      | Inr None \<Rightarrow>
          let chosen = (case agent_id of
                          Some given \<Rightarrow> given
                        | None \<Rightarrow> a_id (candidates ! (assignments_created mod length candidates)));
              a = new_assignment s meter_id chosen estimated_time now
          in assign_meters agent_id candidates estimated_time now meter_ids
               (assignments_created + 1)
               (s\<lparr>meter_assignments := meter_assignments s @ [a]\<rparr>))"

definition bulk_assign :: "BulkAssignmentRequest \<Rightarrow> timestamp \<Rightarrow> db \<Rightarrow> error + nat \<times> db" where
  "bulk_assign bulk_data now s =
     (case verify_meters s (b_meter_ids bulk_data) of
        Inl e \<Rightarrow> Inl e
      | Inr _ \<Rightarrow>
     (case b_agent_id bulk_data of
        Some given \<Rightarrow>
          (case get_agent s given of
             None \<Rightarrow> Inl (HTTPException HTTP_404_NOT_FOUND Agent_not_found)
           | Some agent \<Rightarrow>
               assign_meters (Some given) [] (b_estimated_time bulk_data) now
                 (b_meter_ids bulk_data) 0 s)
      | None \<Rightarrow>
          if available_agents s = []
          then Inl (HTTPException HTTP_400_BAD_REQUEST No_available_agents_found)
          else assign_meters None (available_agents s) (b_estimated_time bulk_data) now
                 (b_meter_ids bulk_data) 0 s))"

text \<open>
  \<^verbatim>\<open>for field, value in update_data.items(): setattr(assignment, field, value)\<close>.
  A null estimated_time or completion_notes clears the column. A null status cannot be a
  value of the row: \<open>apply_update\<close> leaves the status as it is, and
  \<open>update_assignment\<close> raises for it at the commit.
\<close>

definition apply_update :: "MeterAssignmentUpdate \<Rightarrow> MeterAssignment \<Rightarrow> MeterAssignment" where
  "apply_update assignment_update assignment =
     assignment
       \<lparr>ma_status := (case upd_status assignment_update of
                         Unset \<Rightarrow> ma_status assignment
                       | Sent None \<Rightarrow> ma_status assignment
                       | Sent (Some v) \<Rightarrow> v),
        ma_estimated_time := (case upd_estimated_time assignment_update of
                                Unset \<Rightarrow> ma_estimated_time assignment | Sent v \<Rightarrow> v),
        ma_completion_notes := (case upd_completion_notes assignment_update of
                                  Unset \<Rightarrow> ma_completion_notes assignment | Sent v \<Rightarrow> v)\<rparr>"

text \<open>
  \<^verbatim>\<open>update_assignment\<close>. The column \<^verbatim>\<open>status\<close> is
  \<^verbatim>\<open>nullable=False\<close>: a status that was sent as null is written to the object by
  \<^verbatim>\<open>setattr\<close>, is not equal to \<^verbatim>\<open>COMPLETED\<close>, and makes the commit
  raise \<open>IntegrityError\<close>.
\<close>

definition update_assignment ::
  "uuid \<Rightarrow> MeterAssignmentUpdate \<Rightarrow> timestamp \<Rightarrow> db \<Rightarrow> error + MeterAssignment \<times> db" where
  "update_assignment assignment_id assignment_update now s =
     (case get_assignment s assignment_id of
        None \<Rightarrow> Inl (HTTPException HTTP_404_NOT_FOUND Assignment_not_found)
      | Some assignment \<Rightarrow>
          let updated = apply_update assignment_update assignment in
          if upd_status assignment_update = Sent (Some COMPLETED) \<and>
             ma_completed_at updated = None
          then
            let completed = updated\<lparr>ma_completed_at := Some now\<rparr> in
            Inr (completed,
                 s\<lparr>meter_assignments :=
                      update_first (\<lambda>a. ma_id a = assignment_id) (\<lambda>a. completed)
                        (meter_assignments s),
                    agents :=
                      (case get_agent s (ma_agent_id completed) of
                         None \<Rightarrow> agents s
                       | Some agent \<Rightarrow>
                           if a_current_load agent > 0
                           then update_first (\<lambda>x. a_id x = a_id agent)
                                  (\<lambda>x. x\<lparr>a_current_load := a_current_load agent - 1\<rparr>)
                                  (agents s)
                           else agents s)\<rparr>)
          else if upd_status assignment_update = Sent None
          then Inl IntegrityError
          else
            Inr (updated,
                 s\<lparr>meter_assignments :=
                      update_first (\<lambda>a. ma_id a = assignment_id) (\<lambda>a. updated)
                        (meter_assignments s)\<rparr>))"

text \<open>\<^verbatim>\<open>get_current_agent\<close> of \<^verbatim>\<open>auth/dependencies.py\<close>.\<close>

definition get_current_agent :: "User \<Rightarrow> db \<Rightarrow> error + Agent" where
  "get_current_agent current_user s =
     (if u_role current_user \<noteq> AGENT
      then Inl (HTTPException HTTP_403_FORBIDDEN User_is_not_an_agent)
      else case find (\<lambda>a. a_user_id a = u_id current_user) (agents s) of
             None \<Rightarrow> Inl (HTTPException HTTP_404_NOT_FOUND Agent_profile_not_found)
           | Some agent \<Rightarrow> Inr agent)"

text \<open>
  \<^verbatim>\<open>update_my_assignment_status\<close>; \<open>current_agent\<close> is the row that
  \<^verbatim>\<open>get_current_agent\<close> has loaded in the same session. The parameter
  \<^verbatim>\<open>status: AssignmentStatus\<close> hides the module \<^verbatim>\<open>fastapi.status\<close> in the
  body, so in the branch of the missing assignment the expression
  \<^verbatim>\<open>status.HTTP_404_NOT_FOUND\<close> is an attribute lookup on the status value: it
  raises \<open>AttributeError\<close> before the \<^verbatim>\<open>HTTPException\<close> is built.
\<close>

definition update_my_assignment_status ::
  "uuid \<Rightarrow> AssignmentStatus \<Rightarrow> string option \<Rightarrow> Agent \<Rightarrow> timestamp \<Rightarrow> db \<Rightarrow> error + db" where
  "update_my_assignment_status assignment_id status completion_notes current_agent now s =
     (case find (\<lambda>a. ma_id a = assignment_id \<and> ma_agent_id a = a_id current_agent)
             (meter_assignments s) of
        None \<Rightarrow> Inl AttributeError
      | Some assignment \<Rightarrow>
          if status = COMPLETED
          then
            Inr (s\<lparr>meter_assignments :=
                      update_first
                        (\<lambda>a. ma_id a = assignment_id \<and> ma_agent_id a = a_id current_agent)
                        (\<lambda>a. a\<lparr>ma_status := status,
                               ma_completed_at := Some now,
                               ma_completion_notes := completion_notes\<rparr>)
                        (meter_assignments s),
                    agents :=
                      (if a_current_load current_agent > 0
                       then update_first (\<lambda>x. a_id x = a_id current_agent)
                              (\<lambda>x. x\<lparr>a_current_load := a_current_load current_agent - 1\<rparr>)
                              (agents s)
                       else agents s)\<rparr>)
          else
            Inr (s\<lparr>meter_assignments :=
                      update_first
                        (\<lambda>a. ma_id a = assignment_id \<and> ma_agent_id a = a_id current_agent)
                        (\<lambda>a. a\<lparr>ma_status := status\<rparr>)
                        (meter_assignments s)\<rparr>))"

section \<open>Sequences of operations\<close>

text \<open>
  A call of one of the four writing endpoints of the assignment engine, with the time of
  the call. A call that raises commits nothing and leaves the store as it was.
\<close>

datatype call =
    CreateAssignment MeterAssignmentCreate timestamp
  | BulkAssign BulkAssignmentRequest timestamp
  | UpdateAssignment uuid MeterAssignmentUpdate timestamp
  | UpdateOwnAssignmentStatus User uuid AssignmentStatus "string option" timestamp

fun step :: "call \<Rightarrow> db \<Rightarrow> db" where
  "step (CreateAssignment assignment_data now) s =
     (case create_assignment assignment_data now s of Inl e \<Rightarrow> s | Inr (a, s') \<Rightarrow> s')"
| "step (BulkAssign bulk_data now) s =
     (case bulk_assign bulk_data now s of Inl e \<Rightarrow> s | Inr (n, s') \<Rightarrow> s')"
| "step (UpdateAssignment assignment_id assignment_update now) s =
     (case update_assignment assignment_id assignment_update now s of
        Inl e \<Rightarrow> s | Inr (a, s') \<Rightarrow> s')"
| "step (UpdateOwnAssignmentStatus current_user assignment_id status completion_notes now) s =
     (case get_current_agent current_user s of
        Inl e \<Rightarrow> s
      | Inr current_agent \<Rightarrow>
          (case update_my_assignment_status assignment_id status completion_notes
                  current_agent now s of
             Inl e \<Rightarrow> s | Inr s' \<Rightarrow> s'))"

fun run :: "call list \<Rightarrow> db \<Rightarrow> db" where
  "run [] s = s"
| "run (c # cs) s = run cs (step c s)"

text \<open>At most one active assignment per meter.\<close>

definition one_active_per_meter :: "db \<Rightarrow> bool" where
  "one_active_per_meter s \<longleftrightarrow>
     list_all (\<lambda>a. length (active_assignments (meter_assignments s) (ma_meter_id a)) \<le> 1)
       (meter_assignments s)"

text \<open>
  A call reactivates when it is an update that gives the status pending or in progress to
  an assignment that is in neither.
\<close>

definition is_active_status :: "AssignmentStatus \<Rightarrow> bool" where
  "is_active_status st \<longleftrightarrow> st = PENDING \<or> st = IN_PROGRESS"

fun reactivates :: "call \<Rightarrow> db \<Rightarrow> bool" where
  "reactivates (UpdateAssignment assignment_id assignment_update now) s =
     (case get_assignment s assignment_id of
        None \<Rightarrow> False
      | Some a \<Rightarrow>
          \<not> is_active a \<and>
          (case upd_status assignment_update of
             Unset \<Rightarrow> False
           | Sent None \<Rightarrow> False
           | Sent (Some st) \<Rightarrow> is_active_status st))"
| "reactivates (UpdateOwnAssignmentStatus current_user assignment_id status completion_notes now) s =
     (case get_current_agent current_user s of
        Inl e \<Rightarrow> False
      | Inr current_agent \<Rightarrow>
          (case find (\<lambda>a. ma_id a = assignment_id \<and> ma_agent_id a = a_id current_agent)
                  (meter_assignments s) of
             None \<Rightarrow> False
           | Some a \<Rightarrow> \<not> is_active a \<and> is_active_status status))"
| "reactivates (CreateAssignment assignment_data now) s = False"
| "reactivates (BulkAssign bulk_data now) s = False"

fun no_reactivation :: "call list \<Rightarrow> db \<Rightarrow> bool" where
  "no_reactivation [] s = True"
| "no_reactivation (c # cs) s = (\<not> reactivates c s \<and> no_reactivation cs (step c s))"

text \<open>The same for the rows of a table, stated for every meter identifier.\<close>

definition one_active_rows :: "MeterAssignment list \<Rightarrow> bool" where
  "one_active_rows rows \<longleftrightarrow> (\<forall>m. length (active_assignments rows m) \<le> 1)"

text \<open>The store after a call that returns the new store or raises.\<close>

definition store_after :: "db \<Rightarrow> error + db \<Rightarrow> db" where
  "store_after s result = (case result of Inl e \<Rightarrow> s | Inr s' \<Rightarrow> s')"

section \<open>A small store\<close>

text \<open>
  Three meters A, B, C, two available agents X and Y with no load, one pending approval
  request, no assignment.
\<close>

definition meter_A :: Meter where
  "meter_A = \<lparr>m_id = 1, m_serial_number = ''A'', m_address = ''1 Main St''\<rparr>"

definition meter_B :: Meter where
  "meter_B = \<lparr>m_id = 2, m_serial_number = ''B'', m_address = ''2 Main St''\<rparr>"

definition meter_C :: Meter where
  "meter_C = \<lparr>m_id = 3, m_serial_number = ''C'', m_address = ''3 Main St''\<rparr>"

definition agent_X :: Agent where
  "agent_X = \<lparr>a_id = 10, a_user_id = 100, a_current_load = 0, a_max_load = 10,
              a_status = AVAILABLE\<rparr>"

definition agent_Y :: Agent where
  "agent_Y = \<lparr>a_id = 11, a_user_id = 101, a_current_load = 0, a_max_load = 10,
              a_status = AVAILABLE\<rparr>"

definition manager :: User where
  "manager = \<lparr>u_id = 50, u_role = MANAGER\<rparr>"

definition user_X :: User where
  "user_X = \<lparr>u_id = 100, u_role = AGENT\<rparr>"

definition request_1 :: MeterApprovalRequest where
  "request_1 = \<lparr>r_id = 1, r_meter_id = 1, r_agent_id = 10, r_reviewer_id = None,
                r_meter_data = [(''owner'', ''N. N.'')], r_status = APPROVAL_PENDING,
                r_submission_notes = Some ''owner changed'', r_review_notes = None,
                r_submitted_at = Some 1, r_reviewed_at = None\<rparr>"

definition store_0 :: db where
  "store_0 = \<lparr>meters = [meter_A, meter_B, meter_C], agents = [agent_X, agent_Y],
              meter_assignments = [], meter_approval_requests = [request_1],
              meter_readings = []\<rparr>"

definition pending_row :: "uuid \<Rightarrow> uuid \<Rightarrow> uuid \<Rightarrow> timestamp \<Rightarrow> MeterAssignment" where
  "pending_row i meter_id agent_id now =
     \<lparr>ma_id = i, ma_meter_id = meter_id, ma_agent_id = agent_id, ma_status = PENDING,
      ma_estimated_time = None, ma_assigned_at = Some now, ma_completed_at = None,
      ma_completion_notes = None\<rparr>"

text \<open>
  \<open>store_1\<close>: meter A has been assigned to X at time 2. \<open>store_2\<close>: that
  assignment has been completed at time 7. \<open>store_3\<close>: X has completed the
  assignment of A at time 7 and holds two open assignments, of B and of C.
\<close>

definition store_1 :: db where
  "store_1 = store_0\<lparr>agents := [agent_X\<lparr>a_current_load := 1\<rparr>, agent_Y],
                     meter_assignments := [pending_row 1 1 10 2]\<rparr>"

definition completed_row :: "uuid \<Rightarrow> uuid \<Rightarrow> uuid \<Rightarrow> timestamp \<Rightarrow> timestamp \<Rightarrow> MeterAssignment" where
  "completed_row i meter_id agent_id now done =
     (pending_row i meter_id agent_id now)\<lparr>ma_status := COMPLETED, ma_completed_at := Some done\<rparr>"

definition store_2 :: db where
  "store_2 = store_0\<lparr>agents := [agent_X, agent_Y],
                     meter_assignments := [completed_row 1 1 10 2 7]\<rparr>"

definition store_3 :: db where
  "store_3 = store_0\<lparr>agents := [agent_X\<lparr>a_current_load := 2\<rparr>, agent_Y],
                     meter_assignments :=
                       [completed_row 1 1 10 2 7, pending_row 2 2 10 8, pending_row 3 3 10 8]\<rparr>"

definition status_update :: "AssignmentStatus \<Rightarrow> MeterAssignmentUpdate" where
  "status_update st = \<lparr>upd_status = Sent (Some st), upd_estimated_time = Unset,
                       upd_completion_notes = Unset\<rparr>"

text \<open>
  \<open>store_4\<close>: the small store with two more agents, Z who is busy and W who is
  available with a full load. \<open>store_5\<close>: the small store after meter A was
  assigned to X, that assignment was completed, meter A was assigned to Y, and the first
  assignment was set back to pending.
\<close>

definition agent_Z :: Agent where
  "agent_Z = \<lparr>a_id = 12, a_user_id = 102, a_current_load = 0, a_max_load = 10,
              a_status = BUSY\<rparr>"

definition agent_W :: Agent where
  "agent_W = \<lparr>a_id = 13, a_user_id = 103, a_current_load = 10, a_max_load = 10,
              a_status = AVAILABLE\<rparr>"

definition store_4 :: db where
  "store_4 = store_0\<lparr>agents := [agent_Z, agent_X, agent_W, agent_Y]\<rparr>"


lemmas store_0_defs =
  store_0_def meter_A_def meter_B_def meter_C_def agent_X_def agent_Y_def manager_def
  user_X_def request_1_def pending_row_def store_1_def store_2_def store_3_def
  completed_row_def status_update_def agent_Z_def agent_W_def store_4_def

lemmas http_defs = HTTP_400_BAD_REQUEST_def HTTP_403_FORBIDDEN_def HTTP_404_NOT_FOUND_def

section \<open>Lemmas on queries and row updates\<close>

lemma find_SomeD: "find P xs = Some x \<Longrightarrow> P x \<and> x \<in> set xs"
  by (induction xs) (auto split: if_splits)

lemma find_update_first_same:
  "(\<And>x. P x \<Longrightarrow> P (f x)) \<Longrightarrow> find P (update_first P f xs) = map_option f (find P xs)"
  by (induction xs) auto

lemma find_update_first_other:
  "(\<And>x. P x \<Longrightarrow> \<not> Q x \<and> \<not> Q (f x)) \<Longrightarrow> find Q (update_first P f xs) = find Q xs"
  by (induction xs) auto

lemma map_update_first:
  "(\<And>x. P x \<Longrightarrow> g (f x) = g x) \<Longrightarrow> map g (update_first P f xs) = map g xs"
  by (induction xs) auto

lemma filter_update_first_other:
  "(\<And>x. P x \<Longrightarrow> \<not> Q x \<and> \<not> Q (f x)) \<Longrightarrow> filter Q (update_first P f xs) = filter Q xs"
  by (induction xs) auto

lemma get_assignment_id: "get_assignment s aid = Some a \<Longrightarrow> ma_id a = aid"
  unfolding get_assignment_def by (drule find_SomeD) simp

lemma get_agent_id: "get_agent s x = Some ag \<Longrightarrow> a_id ag = x"
  unfolding get_agent_def by (drule find_SomeD) simp

lemma get_request_id: "get_request s rid = Some r \<Longrightarrow> r_id r = rid"
  unfolding get_request_def by (drule find_SomeD) simp

section \<open>Approval workflow: review\<close>

lemma approve_request_Inr:
  "approve_request rid notes u now s = Inr s' \<longleftrightarrow>
     (\<exists>r. get_request s rid = Some r \<and> r_status r = APPROVAL_PENDING) \<and>
     s' = s\<lparr>meter_approval_requests :=
             update_first (\<lambda>r. r_id r = rid)
               (\<lambda>r. r\<lparr>r_status := APPROVED, r_reviewer_id := Some (u_id u),
                      r_review_notes := notes, r_reviewed_at := Some now\<rparr>)
               (meter_approval_requests s)\<rparr>"
  by (auto simp: approve_request_def split: option.splits)

lemma reject_request_Inr:
  "reject_request rid notes u now s = Inr s' \<longleftrightarrow>
     (\<exists>r. get_request s rid = Some r \<and> r_status r = APPROVAL_PENDING) \<and>
     s' = s\<lparr>meter_approval_requests :=
             update_first (\<lambda>r. r_id r = rid)
               (\<lambda>r. r\<lparr>r_status := REJECTED, r_reviewer_id := Some (u_id u),
                      r_review_notes := Some notes, r_reviewed_at := Some now\<rparr>)
               (meter_approval_requests s)\<rparr>"
  by (auto simp: reject_request_def split: option.splits)

lemma get_request_reviewed:
  "get_request
     (s\<lparr>meter_approval_requests :=
          update_first (\<lambda>r. r_id r = rid)
            (\<lambda>r. r\<lparr>r_status := st, r_reviewer_id := rv, r_review_notes := notes,
                   r_reviewed_at := t\<rparr>)
            (meter_approval_requests s)\<rparr>) rid
   = map_option (\<lambda>r. r\<lparr>r_status := st, r_reviewer_id := rv, r_review_notes := notes,
                        r_reviewed_at := t\<rparr>) (get_request s rid)"
  unfolding get_request_def by (simp add: find_update_first_same)

lemma review_not_pending:
  assumes "get_request s rid = Some r" and "r_status r \<noteq> APPROVAL_PENDING"
  shows "approve_request rid notes u now s =
           Inl (HTTPException HTTP_400_BAD_REQUEST Request_is_not_pending_approval)"
    and "reject_request rid notes' u now s =
           Inl (HTTPException HTTP_400_BAD_REQUEST Request_is_not_pending_approval)"
  using assms by (simp_all add: approve_request_def reject_request_def)

text \<open>
  C2. A review, approve or reject, succeeds only on a request whose status is pending.
  After a successful review of a request, every further approve or reject of the same
  request, with any notes, by any reviewer, at any time, raises HTTP 400 "Request is not
  pending approval" (the InvalidState failure), and the store after the failed call is the
  store before it, so the status, reviewer_id and review_notes of the request are the ones
  the first review wrote.
\<close>

theorem review_one_shot:
  assumes "approve_request rid notes u now s = Inr s1 \<or> reject_request rid notes' u now s = Inr s1"
  shows "(\<exists>r. get_request s rid = Some r \<and> r_status r = APPROVAL_PENDING) \<and>
         approve_request rid notes2 u2 now2 s1 =
           Inl (HTTPException HTTP_400_BAD_REQUEST Request_is_not_pending_approval) \<and>
         reject_request rid notes2' u2 now2 s1 =
           Inl (HTTPException HTTP_400_BAD_REQUEST Request_is_not_pending_approval) \<and>
         store_after s1 (approve_request rid notes2 u2 now2 s1) = s1 \<and>
         store_after s1 (reject_request rid notes2' u2 now2 s1) = s1"
proof -
  from assms obtain r where r: "get_request s rid = Some r" "r_status r = APPROVAL_PENDING"
    by (auto simp: approve_request_Inr reject_request_Inr)
  from assms r obtain r1 where r1: "get_request s1 rid = Some r1" "r_status r1 \<noteq> APPROVAL_PENDING"
    by (auto simp: approve_request_Inr reject_request_Inr get_request_reviewed)
  note fails = review_not_pending [OF r1]
  from r fails show ?thesis
    by (simp add: store_after_def)
qed

theorem review_one_shot_witness:
  "approve_request 1 None manager 5 store_0 =
     Inr (store_0\<lparr>meter_approval_requests :=
            [request_1\<lparr>r_status := APPROVED, r_reviewer_id := Some 50, r_review_notes := None,
                       r_reviewed_at := Some 5\<rparr>]\<rparr>) \<and>
   reject_request 1 ''too late'' manager 6
     (store_0\<lparr>meter_approval_requests :=
        [request_1\<lparr>r_status := APPROVED, r_reviewer_id := Some 50, r_review_notes := None,
                   r_reviewed_at := Some 5\<rparr>]\<rparr>) =
     Inl (HTTPException HTTP_400_BAD_REQUEST Request_is_not_pending_approval)"
proof -
  have first: "approve_request 1 None manager 5 store_0 =
     Inr (store_0\<lparr>meter_approval_requests :=
            [request_1\<lparr>r_status := APPROVED, r_reviewer_id := Some 50, r_review_notes := None,
                       r_reviewed_at := Some 5\<rparr>]\<rparr>)"
    by (simp add: approve_request_def get_request_def store_0_defs)
  from review_one_shot [OF disjI1, OF first, of _ manager 6 "''too late''"] first
  show ?thesis by simp
qed

text \<open>
  C7, as the code has it. \<^verbatim>\<open>reject_request\<close> takes its review notes as a string
  and never looks at them: rejecting a pending request succeeds with any notes, the empty
  string too, and writes status rejected, the reviewer, the notes as given and the time of
  the review.
\<close>

theorem reject_request_any_notes:
  assumes "get_request s rid = Some r" and "r_status r = APPROVAL_PENDING"
  shows "\<exists>s'. reject_request rid notes u now s = Inr s' \<and>
           get_request s' rid =
             Some (r\<lparr>r_status := REJECTED, r_reviewer_id := Some (u_id u),
                     r_review_notes := Some notes, r_reviewed_at := Some now\<rparr>)"
  using assms by (simp add: reject_request_def get_request_reviewed)

theorem reject_request_any_notes_witness:
  "get_request store_0 1 = Some request_1 \<and> r_status request_1 = APPROVAL_PENDING \<and>
   (\<exists>s'. reject_request 1 [] manager 5 store_0 = Inr s' \<and>
          get_request s' 1 =
            Some (request_1\<lparr>r_status := REJECTED, r_reviewer_id := Some (u_id manager),
                            r_review_notes := Some [], r_reviewed_at := Some 5\<rparr>))"
proof -
  have h1: "get_request store_0 1 = Some request_1"
    by (simp add: get_request_def store_0_defs)
  have h2: "r_status request_1 = APPROVAL_PENDING"
    by (simp add: request_1_def)
  from reject_request_any_notes [OF h1 h2, of "[]" manager 5] h1 h2 show ?thesis by simp
qed

text \<open>
  The claim C7 as the specification states it fails: rejecting the pending request of the
  small store with empty review notes returns the store with the request rejected.
\<close>

theorem reject_request_empty_notes_counterexample:
  "reject_request 1 [] manager 5 store_0 =
     Inr (store_0\<lparr>meter_approval_requests :=
            [request_1\<lparr>r_status := REJECTED, r_reviewer_id := Some 50,
                       r_review_notes := Some [], r_reviewed_at := Some 5\<rparr>]\<rparr>)"
  by (simp add: reject_request_def get_request_def store_0_defs)

text \<open>
  C10. A successful approve or reject leaves the meters, the agents, the assignments and
  the readings as they were; in the table of approval requests it leaves every row's id, meter_id,
  agent_id, meter_data, submission_notes and submitted_at as they were, leaves every row
  with another id untouched, and replaces the request by itself with status, reviewer_id,
  review_notes and reviewed_at rewritten.
\<close>

theorem review_frame:
  assumes "approve_request rid notes u now s = Inr s' \<or> reject_request rid notes' u now s = Inr s'"
  shows "meters s' = meters s \<and> agents s' = agents s \<and>
         meter_assignments s' = meter_assignments s \<and>
         meter_readings s' = meter_readings s \<and>
         map (\<lambda>r. (r_id r, r_meter_id r, r_agent_id r, r_meter_data r, r_submission_notes r,
                   r_submitted_at r)) (meter_approval_requests s') =
         map (\<lambda>r. (r_id r, r_meter_id r, r_agent_id r, r_meter_data r, r_submission_notes r,
                   r_submitted_at r)) (meter_approval_requests s) \<and>
         filter (\<lambda>r. r_id r \<noteq> rid) (meter_approval_requests s') =
         filter (\<lambda>r. r_id r \<noteq> rid) (meter_approval_requests s) \<and>
         (\<exists>r st nt. get_request s rid = Some r \<and>
            get_request s' rid =
              Some (r\<lparr>r_status := st, r_reviewer_id := Some (u_id u), r_review_notes := nt,
                      r_reviewed_at := Some now\<rparr>))"
  using assms
proof
  assume "approve_request rid notes u now s = Inr s'"
  then show ?thesis
    by (auto simp: approve_request_Inr get_request_reviewed
             intro!: map_update_first filter_update_first_other)
next
  assume "reject_request rid notes' u now s = Inr s'"
  then show ?thesis
    by (auto simp: reject_request_Inr get_request_reviewed
             intro!: map_update_first filter_update_first_other)
qed

theorem review_frame_witness:
  "reject_request 1 ''no'' manager 5 store_0 =
     Inr (store_0\<lparr>meter_approval_requests :=
            [request_1\<lparr>r_status := REJECTED, r_reviewer_id := Some 50,
                       r_review_notes := Some ''no'', r_reviewed_at := Some 5\<rparr>]\<rparr>) \<and>
   agents (store_0\<lparr>meter_approval_requests :=
            [request_1\<lparr>r_status := REJECTED, r_reviewer_id := Some 50,
                       r_review_notes := Some ''no'', r_reviewed_at := Some 5\<rparr>]\<rparr>) =
   agents store_0"
proof -
  have ok: "reject_request 1 ''no'' manager 5 store_0 =
     Inr (store_0\<lparr>meter_approval_requests :=
            [request_1\<lparr>r_status := REJECTED, r_reviewer_id := Some 50,
                       r_review_notes := Some ''no'', r_reviewed_at := Some 5\<rparr>]\<rparr>)"
    by (simp add: reject_request_def get_request_def store_0_defs)
  from review_frame [OF disjI2, OF ok] ok show ?thesis by simp
qed

section \<open>Meters: delete\<close>

text \<open>
  C8. Deleting an existing meter that some assignment with status pending or in progress
  refers to raises HTTP 400 "Cannot delete meter with active assignments", and the store,
  with the meter in it, stays as it was. Whenever the delete returns, no assignment with
  status pending or in progress referred to the meter, and the meter is gone.
\<close>

theorem delete_meter_active_guard:
  assumes "get_meter s mid = Some m"
  shows "(active_assignments (meter_assignments s) mid \<noteq> [] \<longrightarrow>
            delete_meter mid s =
              Inl (HTTPException HTTP_400_BAD_REQUEST Cannot_delete_meter_with_active_assignments) \<and>
            store_after s (delete_meter mid s) = s \<and>
            get_meter (store_after s (delete_meter mid s)) mid = Some m) \<and>
         (\<forall>s'. delete_meter mid s = Inr s' \<longrightarrow>
            active_assignments (meter_assignments s) mid = [] \<and> get_meter s' mid = None)"
proof -
  have "find (\<lambda>m. m_id m = mid) (filter (\<lambda>m. m_id m \<noteq> mid) xs) = None" for xs :: "Meter list"
    by (induction xs) auto
  with assms show ?thesis
    by (auto simp: delete_meter_def store_after_def get_meter_def split: if_splits)
qed

text \<open>
  In the small store meter B has no row that refers to it and is deleted; with a pending
  assignment of B the delete raises the HTTP 400.
\<close>

theorem delete_meter_active_guard_witness:
  "delete_meter 2 (store_0\<lparr>meter_assignments := [pending_row 1 2 10 2]\<rparr>) =
     Inl (HTTPException HTTP_400_BAD_REQUEST Cannot_delete_meter_with_active_assignments) \<and>
   get_meter (store_after (store_0\<lparr>meter_assignments := [pending_row 1 2 10 2]\<rparr>)
                (delete_meter 2 (store_0\<lparr>meter_assignments := [pending_row 1 2 10 2]\<rparr>))) 2 =
     Some meter_B \<and>
   delete_meter 2 store_0 = Inr (store_0\<lparr>meters := [meter_A, meter_C]\<rparr>) \<and>
   active_assignments (meter_assignments store_0) 2 = [] \<and>
   get_meter (store_0\<lparr>meters := [meter_A, meter_C]\<rparr>) 2 = None"
proof -
  have m1: "get_meter (store_0\<lparr>meter_assignments := [pending_row 1 2 10 2]\<rparr>) 2 = Some meter_B"
    by (simp add: get_meter_def store_0_defs)
  have act: "active_assignments
               (meter_assignments (store_0\<lparr>meter_assignments := [pending_row 1 2 10 2]\<rparr>)) 2 \<noteq> []"
    by (simp add: active_assignments_def is_active_def store_0_defs)
  have m2: "get_meter store_0 2 = Some meter_B"
    by (simp add: get_meter_def store_0_defs)
  have ok: "delete_meter 2 store_0 = Inr (store_0\<lparr>meters := [meter_A, meter_C]\<rparr>)"
    by (simp add: delete_meter_def get_meter_def active_assignments_def refers_to_meter_def
          store_0_defs)
  from delete_meter_active_guard [OF m1] act
  have p1: "delete_meter 2 (store_0\<lparr>meter_assignments := [pending_row 1 2 10 2]\<rparr>) =
              Inl (HTTPException HTTP_400_BAD_REQUEST Cannot_delete_meter_with_active_assignments) \<and>
            get_meter (store_after (store_0\<lparr>meter_assignments := [pending_row 1 2 10 2]\<rparr>)
                (delete_meter 2 (store_0\<lparr>meter_assignments := [pending_row 1 2 10 2]\<rparr>))) 2 =
              Some meter_B"
    by blast
  from delete_meter_active_guard [OF m2] ok
  have p2: "active_assignments (meter_assignments store_0) 2 = [] \<and>
            get_meter (store_0\<lparr>meters := [meter_A, meter_C]\<rparr>) 2 = None"
    by blast
  from p1 p2 ok show ?thesis by blast
qed

section \<open>Assignment engine: updates\<close>

lemma get_assignment_replaced:
  "ma_id c = aid \<Longrightarrow> get_assignment s aid = Some a \<Longrightarrow>
   get_assignment
     (s\<lparr>meter_assignments := update_first (\<lambda>a. ma_id a = aid) (\<lambda>a. c) (meter_assignments s),
        agents := ags\<rparr>) aid = Some c"
  "ma_id c = aid \<Longrightarrow> get_assignment s aid = Some a \<Longrightarrow>
   get_assignment
     (s\<lparr>meter_assignments := update_first (\<lambda>a. ma_id a = aid) (\<lambda>a. c) (meter_assignments s)\<rparr>)
     aid = Some c"
  unfolding get_assignment_def by (simp_all add: find_update_first_same)

lemma get_agent_decrement:
  assumes "get_agent s y = Some ag"
  shows "find (\<lambda>a. a_id a = x)
     (if a_current_load ag > 0
      then update_first (\<lambda>x. a_id x = a_id ag)
             (\<lambda>x. x\<lparr>a_current_load := a_current_load ag - 1\<rparr>) (agents s)
      else agents s)
   = (if x = y
      then Some (if a_current_load ag > 0 then ag\<lparr>a_current_load := a_current_load ag - 1\<rparr> else ag)
      else get_agent s x)"
proof -
  from assms have id: "a_id ag = y" by (rule get_agent_id)
  show ?thesis
  proof (cases "x = y")
    case True
    with assms id show ?thesis
      unfolding get_agent_def by (simp add: find_update_first_same)
  next
    case False
    have "find (\<lambda>a. a_id a = x) (update_first (\<lambda>x. a_id x = a_id ag) f (agents s)) =
          find (\<lambda>a. a_id a = x) (agents s)"
      if "\<And>z. a_id (f z) = a_id z" for f
      by (rule find_update_first_other) (use False id that in auto)
    then show ?thesis
      using False unfolding get_agent_def by simp
  qed
qed

lemma apply_update_id [simp]: "ma_id (apply_update u a) = ma_id a"
  and apply_update_meter [simp]: "ma_meter_id (apply_update u a) = ma_meter_id a"
  and apply_update_agent [simp]: "ma_agent_id (apply_update u a) = ma_agent_id a"
  and apply_update_completed_at [simp]: "ma_completed_at (apply_update u a) = ma_completed_at a"
  and apply_update_status:
    "ma_status (apply_update u a) =
       (case upd_status u of
          Unset \<Rightarrow> ma_status a | Sent None \<Rightarrow> ma_status a | Sent (Some v) \<Rightarrow> v)"
  by (simp_all add: apply_update_def)

lemma update_assignment_first_completion:
  assumes "get_assignment s aid = Some a" "ma_completed_at a = None"
    "upd_status u = Sent (Some COMPLETED)"
  shows "update_assignment aid u t s =
     Inr ((apply_update u a)\<lparr>ma_completed_at := Some t\<rparr>,
          s\<lparr>meter_assignments :=
               update_first (\<lambda>a. ma_id a = aid)
                 (\<lambda>x. (apply_update u a)\<lparr>ma_completed_at := Some t\<rparr>) (meter_assignments s),
            agents :=
              (case get_agent s (ma_agent_id a) of
                 None \<Rightarrow> agents s
               | Some agent \<Rightarrow>
                   if a_current_load agent > 0
                   then update_first (\<lambda>x. a_id x = a_id agent)
                          (\<lambda>x. x\<lparr>a_current_load := a_current_load agent - 1\<rparr>) (agents s)
                   else agents s)\<rparr>)"
  using assms by (simp add: update_assignment_def Let_def)

lemma update_assignment_no_completion:
  assumes "get_assignment s aid = Some a"
    "upd_status u \<noteq> Sent (Some COMPLETED) \<or> ma_completed_at a \<noteq> None"
    "upd_status u \<noteq> Sent None"
  shows "update_assignment aid u t s =
     Inr (apply_update u a,
          s\<lparr>meter_assignments :=
               update_first (\<lambda>a. ma_id a = aid) (\<lambda>x. apply_update u a) (meter_assignments s)\<rparr>)"
  using assms by (auto simp add: update_assignment_def Let_def)

text \<open>
  C4. Take an assignment whose completed_at is unset and two updates with
  status=completed, whatever their other fields. The first update succeeds, sets
  completed_at to the time of the call, and changes the agents only in the row of the
  assigned agent: its current_load goes down by exactly 1 when it is above 0, and stays
  where it is otherwise, so a load that is not negative never becomes negative. The second
  update succeeds as well, leaves completed_at at the time of the first call and leaves
  the table of agents as the first update left it.
\<close>

theorem update_assignment_completed_idempotent:
  assumes "get_assignment s aid = Some a" and "ma_completed_at a = None"
      and "upd_status u1 = Sent (Some COMPLETED)" and "upd_status u2 = Sent (Some COMPLETED)"
  shows "\<exists>a1 s1 a2 s2.
     update_assignment aid u1 t1 s = Inr (a1, s1) \<and> get_assignment s1 aid = Some a1 \<and>
     ma_status a1 = COMPLETED \<and> ma_completed_at a1 = Some t1 \<and>
     (\<forall>x. get_agent s1 x =
        (if x = ma_agent_id a
         then map_option
                (\<lambda>ag. if a_current_load ag > 0
                      then ag\<lparr>a_current_load := a_current_load ag - 1\<rparr> else ag)
                (get_agent s x)
         else get_agent s x)) \<and>
     update_assignment aid u2 t2 s1 = Inr (a2, s2) \<and> get_assignment s2 aid = Some a2 \<and>
     ma_status a2 = COMPLETED \<and> ma_completed_at a2 = Some t1 \<and> agents s2 = agents s1"
proof -
  define a1 where "a1 = (apply_update u1 a)\<lparr>ma_completed_at := Some t1\<rparr>"
  define ags where "ags =
    (case get_agent s (ma_agent_id a) of
       None \<Rightarrow> agents s
     | Some agent \<Rightarrow>
         if a_current_load agent > 0
         then update_first (\<lambda>x. a_id x = a_id agent)
                (\<lambda>x. x\<lparr>a_current_load := a_current_load agent - 1\<rparr>) (agents s)
         else agents s)"
  define s1 where "s1 =
    s\<lparr>meter_assignments := update_first (\<lambda>a. ma_id a = aid) (\<lambda>x. a1) (meter_assignments s),
      agents := ags\<rparr>"
  define a2 where "a2 = apply_update u2 a1"
  define s2 where "s2 =
    s1\<lparr>meter_assignments := update_first (\<lambda>a. ma_id a = aid) (\<lambda>x. a2) (meter_assignments s1)\<rparr>"
  have id: "ma_id a = aid" using assms(1) by (rule get_assignment_id)
  have first: "update_assignment aid u1 t1 s = Inr (a1, s1)"
    using update_assignment_first_completion [OF assms(1-3)] by (simp add: a1_def s1_def ags_def)
  have g1: "get_assignment s1 aid = Some a1"
    unfolding s1_def using id assms(1) by (intro get_assignment_replaced) (simp_all add: a1_def)
  have st1: "ma_status a1 = COMPLETED" "ma_completed_at a1 = Some t1"
    using assms(3) by (simp_all add: a1_def apply_update_status)
  have ag1: "get_agent s1 x =
        (if x = ma_agent_id a
         then map_option
                (\<lambda>ag. if a_current_load ag > 0
                      then ag\<lparr>a_current_load := a_current_load ag - 1\<rparr> else ag)
                (get_agent s x)
         else get_agent s x)" for x
  proof (cases "get_agent s (ma_agent_id a)")
    case None
    then show ?thesis by (auto simp: s1_def ags_def get_agent_def)
  next
    case (Some ag)
    from get_agent_decrement [OF Some, of x] Some show ?thesis
      by (simp add: s1_def ags_def get_agent_def)
  qed
  have second: "update_assignment aid u2 t2 s1 = Inr (a2, s2)"
    using update_assignment_no_completion [OF g1, of u2 t2] st1 assms(4)
    by (simp add: a2_def s2_def)
  have g2: "get_assignment s2 aid = Some a2"
    unfolding s2_def using g1 by (intro get_assignment_replaced) (simp_all add: a2_def a1_def id)
  have st2: "ma_status a2 = COMPLETED" "ma_completed_at a2 = Some t1"
    using assms(4) st1 by (simp_all add: a2_def apply_update_status)
  have "agents s2 = agents s1" by (simp add: s2_def)
  with first g1 st1 ag1 second g2 st2 show ?thesis by blast
qed

theorem update_assignment_completed_idempotent_witness:
  "get_assignment store_1 1 = Some (pending_row 1 1 10 2) \<and>
   update_assignment 1 (status_update COMPLETED) 7 store_1 = Inr (completed_row 1 1 10 2 7, store_2) \<and>
   update_assignment 1 (status_update COMPLETED) 9 store_2 = Inr (completed_row 1 1 10 2 7, store_2) \<and>
   (\<exists>a1 s1 a2 s2.
      update_assignment 1 (status_update COMPLETED) 7 store_1 = Inr (a1, s1) \<and>
      ma_completed_at a1 = Some 7 \<and>
      update_assignment 1 (status_update COMPLETED) 9 s1 = Inr (a2, s2) \<and>
      ma_completed_at a2 = Some 7 \<and> agents s2 = agents s1)"
proof -
  have h1: "get_assignment store_1 1 = Some (pending_row 1 1 10 2)"
    by (simp add: get_assignment_def store_0_defs)
  have h2: "ma_completed_at (pending_row 1 1 10 2) = None"
    by (simp add: pending_row_def)
  have h3: "upd_status (status_update COMPLETED) = Sent (Some COMPLETED)"
    by (simp add: status_update_def)
  have e1: "update_assignment 1 (status_update COMPLETED) 7 store_1 =
              Inr (completed_row 1 1 10 2 7, store_2)"
    by (simp add: update_assignment_def get_assignment_def get_agent_def apply_update_def
          Let_def store_0_defs)
  have e2: "update_assignment 1 (status_update COMPLETED) 9 store_2 =
              Inr (completed_row 1 1 10 2 7, store_2)"
    by (simp add: update_assignment_def get_assignment_def get_agent_def apply_update_def
          Let_def store_0_defs)
  from update_assignment_completed_idempotent [OF h1 h2 h3 h3, of 7 9] h1 e1 e2
  show ?thesis by blast
qed




text \<open>
  C3 at a concrete store. \<^verbatim>\<open>create_assignment\<close> of meter A for agent X raises the
  load of X from 0 to 1 (\<open>store_1\<close>). \<^verbatim>\<open>bulk_assign\<close> of the same meter, for
  the given agent X or with the agent chosen by the round robin, creates the same
  assignment for X and returns the count 1, and the agents are as before: the load of X
  is still 0.
\<close>

theorem bulk_assign_keeps_current_load:
  "create_assignment \<lparr>c_meter_id = 1, c_agent_id = 10, c_estimated_time = None\<rparr> 2 store_0 =
     Inr (pending_row 1 1 10 2, store_1) \<and>
   map a_current_load (agents store_1) = [1, 0] \<and>
   bulk_assign \<lparr>b_meter_ids = [1], b_agent_id = Some 10, b_estimated_time = None\<rparr> 2 store_0 =
     Inr (1, store_0\<lparr>meter_assignments := [pending_row 1 1 10 2]\<rparr>) \<and>
   bulk_assign \<lparr>b_meter_ids = [1], b_agent_id = None, b_estimated_time = None\<rparr> 2 store_0 =
     Inr (1, store_0\<lparr>meter_assignments := [pending_row 1 1 10 2]\<rparr>) \<and>
   map a_current_load (agents (store_0\<lparr>meter_assignments := [pending_row 1 1 10 2]\<rparr>)) = [0, 0]"
  by (simp add: create_assignment_def bulk_assign_def get_meter_def get_agent_def
        scalar_one_or_none_def active_assignments_def new_assignment_def uuid4_def
        available_agents_def Let_def store_0_defs)

text \<open>
  C5 at a concrete store. In \<open>store_3\<close> agent X has completed assignment 1 at time 7
  and has load 2 for two open assignments. X reports assignment 1 completed again at
  time 9: the call succeeds, completed_at becomes 9 and the load of X drops to 1. Agent Y
  reports the same assignment, which is not Y's: the call raises \<open>AttributeError\<close>,
  not the HTTP 404.
\<close>

theorem update_my_assignment_status_decrements_again:
  "get_current_agent user_X store_3 = Inr (agent_X\<lparr>a_current_load := 2\<rparr>) \<and>
   update_my_assignment_status 1 COMPLETED None (agent_X\<lparr>a_current_load := 2\<rparr>) 9 store_3 =
     Inr (store_3\<lparr>agents := [agent_X\<lparr>a_current_load := 1\<rparr>, agent_Y],
                  meter_assignments :=
                    [completed_row 1 1 10 2 9, pending_row 2 2 10 8, pending_row 3 3 10 8]\<rparr>) \<and>
   update_my_assignment_status 1 COMPLETED None agent_Y 9 store_3 = Inl AttributeError"
  by (simp add: update_my_assignment_status_def get_current_agent_def store_0_defs)

section \<open>Assignment engine: bulk assignment\<close>


lemma scalar_one_or_none_simps:
  "scalar_one_or_none xs = Inr None \<longleftrightarrow> xs = []"
  "scalar_one_or_none xs = Inr (Some x) \<longleftrightarrow> xs = [x]"
  "scalar_one_or_none xs = Inl e \<longleftrightarrow> 2 \<le> length xs \<and> e = MultipleResultsFound"
  by (auto simp: scalar_one_or_none_def split: list.splits)

lemma active_assignments_append:
  "active_assignments (rows @ [a]) m =
     active_assignments rows m @ (if ma_meter_id a = m \<and> is_active a then [a] else [])"
  by (simp add: active_assignments_def)

lemma new_assignment_fields [simp]:
  "ma_meter_id (new_assignment s m ag est now) = m"
  "ma_agent_id (new_assignment s m ag est now) = ag"
  "ma_status (new_assignment s m ag est now) = PENDING"
  "ma_estimated_time (new_assignment s m ag est now) = est"
  "ma_assigned_at (new_assignment s m ag est now) = Some now"
  "ma_completed_at (new_assignment s m ag est now) = None"
  "is_active (new_assignment s m ag est now)"
  by (simp_all add: new_assignment_def is_active_def)







section \<open>Assignment engine: one active assignment per meter\<close>

lemmas eval_defs =
  create_assignment_def bulk_assign_def update_assignment_def update_my_assignment_status_def
  get_current_agent_def get_meter_def get_agent_def get_assignment_def
  scalar_one_or_none_def active_assignments_def is_active_def is_active_status_def
  new_assignment_def uuid4_def available_agents_def apply_update_def Let_def
  one_active_per_meter_def

lemma one_active_per_meter_iff:
  "one_active_per_meter s \<longleftrightarrow>
     (\<forall>m. length (active_assignments (meter_assignments s) m) \<le> 1)"
proof
  assume inv: "one_active_per_meter s"
  show "\<forall>m. length (active_assignments (meter_assignments s) m) \<le> 1"
  proof
    fix m
    show "length (active_assignments (meter_assignments s) m) \<le> 1"
    proof (cases "active_assignments (meter_assignments s) m")
      case Nil
      then show ?thesis by simp
    next
      case (Cons a as)
      then have "a \<in> set (active_assignments (meter_assignments s) m)" by simp
      then have "a \<in> set (meter_assignments s)" "ma_meter_id a = m"
        by (auto simp: active_assignments_def)
      with inv show ?thesis
        by (auto simp: one_active_per_meter_def list_all_iff)
    qed
  qed
next
  assume "\<forall>m. length (active_assignments (meter_assignments s) m) \<le> 1"
  then show "one_active_per_meter s"
    by (simp add: one_active_per_meter_def list_all_iff)
qed

lemma active_update_first_le:
  "find P rows = Some a \<Longrightarrow> ma_meter_id (f a) = ma_meter_id a \<Longrightarrow>
   (is_active (f a) \<longrightarrow> is_active a) \<Longrightarrow>
   length (active_assignments (update_first P f rows) m) \<le> length (active_assignments rows m)"
  by (induction rows) (auto simp: active_assignments_def split: if_splits)


lemma one_active_rows_update_first:
  assumes "one_active_rows rows" "find P rows = Some a" "ma_meter_id (f a) = ma_meter_id a"
    "is_active (f a) \<longrightarrow> is_active a"
  shows "one_active_rows (update_first P f rows)"
  unfolding one_active_rows_def
proof
  fix m
  from active_update_first_le [of P rows a f m] assms
  show "length (active_assignments (update_first P f rows) m) \<le> 1"
    by (auto simp: one_active_rows_def intro: order_trans)
qed

lemma one_active_rows_append_new:
  assumes "one_active_rows rows" "active_assignments rows (ma_meter_id a) = []"
  shows "one_active_rows (rows @ [a])"
  using assms by (auto simp: one_active_rows_def active_assignments_append)

lemma create_assignment_inv:
  assumes "one_active_rows (meter_assignments s)" "create_assignment d now s = Inr (a, s')"
  shows "one_active_rows (meter_assignments s')"
  using assms
  by (auto simp: create_assignment_def Let_def scalar_one_or_none_simps
           split: option.splits sum.splits intro!: one_active_rows_append_new)

lemma assign_meters_inv:
  "one_active_rows (meter_assignments s) \<Longrightarrow> assign_meters ag cands est now ms c s = Inr (n, s') \<Longrightarrow>
   one_active_rows (meter_assignments s')"
proof (induction ms arbitrary: c s)
  case Nil
  then show ?case by simp
next
  case (Cons m ms)
  show ?case
  proof (cases "scalar_one_or_none (active_assignments (meter_assignments s) m)")
    case (Inl e)
    with Cons.prems show ?thesis by simp
  next
    case (Inr r)
    show ?thesis
    proof (cases r)
      case None
      with Inr have emp: "active_assignments (meter_assignments s) m = []"
        by (simp add: scalar_one_or_none_simps)
      let ?a = "new_assignment s m
                  (case ag of Some given \<Rightarrow> given
                   | None \<Rightarrow> a_id (cands ! (c mod length cands))) est now"
      have "one_active_rows (meter_assignments (s\<lparr>meter_assignments := meter_assignments s @ [?a]\<rparr>))"
        using Cons.prems(1) emp by (simp add: one_active_rows_append_new)
      moreover have "assign_meters ag cands est now ms (c + 1)
                       (s\<lparr>meter_assignments := meter_assignments s @ [?a]\<rparr>) = Inr (n, s')"
        using Cons.prems(2) Inr None by (simp add: Let_def)
      ultimately show ?thesis by (rule Cons.IH)
    next
      case (Some x)
      with Inr Cons.prems(2) have "assign_meters ag cands est now ms c s = Inr (n, s')" by simp
      with Cons.prems(1) show ?thesis by (rule Cons.IH)
    qed
  qed
qed

lemma bulk_assign_inv:
  assumes "one_active_rows (meter_assignments s)" "bulk_assign d now s = Inr (n, s')"
  shows "one_active_rows (meter_assignments s')"
  using assms
  by (auto simp: bulk_assign_def split: sum.splits option.splits if_splits
           dest: assign_meters_inv)

lemma update_assignment_inv:
  assumes "one_active_rows (meter_assignments s)" "update_assignment aid u now s = Inr (a', s')"
    "\<not> reactivates (UpdateAssignment aid u now) s"
  shows "one_active_rows (meter_assignments s')"
proof -
  from assms(2) obtain a where a: "get_assignment s aid = Some a"
    by (auto simp: update_assignment_def split: option.splits)
  then have f: "find (\<lambda>a. ma_id a = aid) (meter_assignments s) = Some a"
    by (simp add: get_assignment_def)
  from assms(3) a have keep: "is_active (apply_update u a) \<longrightarrow> is_active a"
    by (auto simp: is_active_def is_active_status_def apply_update_status
             split: option.splits sent.splits)
  have rows: "meter_assignments s' =
                update_first (\<lambda>a. ma_id a = aid) (\<lambda>x. a') (meter_assignments s)"
    and a': "a' = apply_update u a \<or> a' = (apply_update u a)\<lparr>ma_completed_at := Some now\<rparr>"
    using assms(2) a by (auto simp: update_assignment_def Let_def split: if_splits)
  from a' keep have "ma_meter_id a' = ma_meter_id a" "is_active a' \<longrightarrow> is_active a"
    by (auto simp: is_active_def)
  with one_active_rows_update_first [OF assms(1) f, of "\<lambda>x. a'"] rows show ?thesis by simp
qed

lemma update_my_assignment_status_inv:
  assumes "one_active_rows (meter_assignments s)"
    "update_my_assignment_status aid st notes ag now s = Inr s'"
    "\<not> (case find (\<lambda>a. ma_id a = aid \<and> ma_agent_id a = a_id ag) (meter_assignments s) of
          None \<Rightarrow> False | Some a \<Rightarrow> \<not> is_active a \<and> is_active_status st)"
  shows "one_active_rows (meter_assignments s')"
proof -
  let ?P = "\<lambda>a. ma_id a = aid \<and> ma_agent_id a = a_id ag"
  from assms(2) obtain a where f: "find ?P (meter_assignments s) = Some a"
    by (auto simp: update_my_assignment_status_def split: option.splits)
  with assms(3) have keep: "is_active_status st \<longrightarrow> is_active a" by auto
  show ?thesis
  proof (cases "st = COMPLETED")
    case True
    with assms(2) f have "meter_assignments s' =
        update_first ?P (\<lambda>a. a\<lparr>ma_status := st, ma_completed_at := Some now,
                                 ma_completion_notes := notes\<rparr>) (meter_assignments s)"
      by (auto simp: update_my_assignment_status_def)
    moreover have "one_active_rows (update_first ?P (\<lambda>a. a\<lparr>ma_status := st, ma_completed_at := Some now,
                                 ma_completion_notes := notes\<rparr>) (meter_assignments s))"
      using keep by (intro one_active_rows_update_first [OF assms(1) f])
        (auto simp: is_active_def is_active_status_def)
    ultimately show ?thesis by simp
  next
    case False
    with assms(2) f have "meter_assignments s' =
        update_first ?P (\<lambda>a. a\<lparr>ma_status := st\<rparr>) (meter_assignments s)"
      by (auto simp: update_my_assignment_status_def)
    moreover have "one_active_rows (update_first ?P (\<lambda>a. a\<lparr>ma_status := st\<rparr>) (meter_assignments s))"
      using keep by (intro one_active_rows_update_first [OF assms(1) f])
        (auto simp: is_active_def is_active_status_def)
    ultimately show ?thesis by simp
  qed
qed

lemma step_inv:
  assumes "one_active_rows (meter_assignments s)" "\<not> reactivates c s"
  shows "one_active_rows (meter_assignments (step c s))"
proof (cases c)
  case (CreateAssignment d now)
  with assms(1) show ?thesis
    by (auto split: sum.splits dest: create_assignment_inv)
next
  case (BulkAssign d now)
  with assms(1) show ?thesis
    by (auto split: sum.splits dest: bulk_assign_inv)
next
  case upd: (UpdateAssignment aid u now)
  show ?thesis
  proof (cases "update_assignment aid u now s")
    case (Inl e)
    with upd assms(1) show ?thesis by simp
  next
    case (Inr r)
    obtain a' s' where r: "r = (a', s')" by (cases r)
    from update_assignment_inv [OF assms(1), of aid u now a' s'] Inr r assms(2) upd
    show ?thesis by simp
  qed
next
  case own: (UpdateOwnAssignmentStatus usr aid st nts now)
  show ?thesis
  proof (cases "get_current_agent usr s")
    case (Inl e)
    with own assms(1) show ?thesis by simp
  next
    case ag: (Inr ag)
    show ?thesis
    proof (cases "update_my_assignment_status aid st nts ag now s")
      case (Inl e)
      with own ag assms(1) show ?thesis by simp
    next
      case (Inr s')
      from assms(2) own ag
      have "\<not> (case find (\<lambda>a. ma_id a = aid \<and> ma_agent_id a = a_id ag) (meter_assignments s) of
                None \<Rightarrow> False | Some a \<Rightarrow> \<not> is_active a \<and> is_active_status st)"
        by simp
      from update_my_assignment_status_inv [OF assms(1) Inr this] own ag Inr
      show ?thesis by simp
    qed
  qed
qed

lemma run_inv:
  "one_active_rows (meter_assignments s) \<Longrightarrow> no_reactivation calls s \<Longrightarrow>
   one_active_rows (meter_assignments (run calls s))"
  by (induction calls arbitrary: s) (auto dest: step_inv)

text \<open>
  C1, as the code has it. From a store with at most one active assignment per meter,
  every sequence of calls of \<^verbatim>\<open>create_assignment\<close>, \<^verbatim>\<open>bulk_assign\<close>,
  \<^verbatim>\<open>update_assignment\<close> and \<^verbatim>\<open>update_my_assignment_status\<close> in which no
  update gives the status pending or in progress to an assignment that is in neither
  leads to a store with at most one active assignment per meter.
\<close>

theorem one_active_per_meter_preserved:
  assumes "one_active_per_meter s" and "no_reactivation calls s"
  shows "one_active_per_meter (run calls s) \<and>
         (\<forall>m. length (active_assignments (meter_assignments (run calls s)) m) \<le> 1)"
proof -
  from assms(1) have "one_active_rows (meter_assignments s)"
    by (simp add: one_active_per_meter_iff one_active_rows_def)
  then have "one_active_rows (meter_assignments (run calls s))"
    using assms(2) by (rule run_inv)
  then show ?thesis
    by (simp add: one_active_per_meter_iff one_active_rows_def)
qed

theorem one_active_per_meter_preserved_witness:
  "one_active_per_meter store_0 \<and>
   no_reactivation
     [CreateAssignment \<lparr>c_meter_id = 1, c_agent_id = 10, c_estimated_time = None\<rparr> 2,
      BulkAssign \<lparr>b_meter_ids = [1, 2, 3], b_agent_id = None, b_estimated_time = None\<rparr> 3,
      UpdateAssignment 1 (status_update IN_PROGRESS) 4,
      UpdateOwnAssignmentStatus user_X 1 COMPLETED None 5,
      CreateAssignment \<lparr>c_meter_id = 1, c_agent_id = 11, c_estimated_time = None\<rparr> 6]
     store_0 \<and>
   one_active_per_meter (run
     [CreateAssignment \<lparr>c_meter_id = 1, c_agent_id = 10, c_estimated_time = None\<rparr> 2,
      BulkAssign \<lparr>b_meter_ids = [1, 2, 3], b_agent_id = None, b_estimated_time = None\<rparr> 3,
      UpdateAssignment 1 (status_update IN_PROGRESS) 4,
      UpdateOwnAssignmentStatus user_X 1 COMPLETED None 5,
      CreateAssignment \<lparr>c_meter_id = 1, c_agent_id = 11, c_estimated_time = None\<rparr> 6]
     store_0) \<and>
   map (\<lambda>a. (ma_meter_id a, ma_agent_id a, ma_status a)) (meter_assignments (run
     [CreateAssignment \<lparr>c_meter_id = 1, c_agent_id = 10, c_estimated_time = None\<rparr> 2,
      BulkAssign \<lparr>b_meter_ids = [1, 2, 3], b_agent_id = None, b_estimated_time = None\<rparr> 3,
      UpdateAssignment 1 (status_update IN_PROGRESS) 4,
      UpdateOwnAssignmentStatus user_X 1 COMPLETED None 5,
      CreateAssignment \<lparr>c_meter_id = 1, c_agent_id = 11, c_estimated_time = None\<rparr> 6]
     store_0))
   = [(1, 10, COMPLETED), (2, 10, PENDING), (3, 11, PENDING), (1, 11, PENDING)]"
proof -
  let ?calls =
    "[CreateAssignment \<lparr>c_meter_id = 1, c_agent_id = 10, c_estimated_time = None\<rparr> 2,
      BulkAssign \<lparr>b_meter_ids = [1, 2, 3], b_agent_id = None, b_estimated_time = None\<rparr> 3,
      UpdateAssignment 1 (status_update IN_PROGRESS) 4,
      UpdateOwnAssignmentStatus user_X 1 COMPLETED None 5,
      CreateAssignment \<lparr>c_meter_id = 1, c_agent_id = 11, c_estimated_time = None\<rparr> 6]"
  have h1: "one_active_per_meter store_0"
    by (simp add: one_active_per_meter_def store_0_defs)
  have h2: "no_reactivation ?calls store_0"
    by (simp add: eval_defs store_0_defs)
  have rows: "map (\<lambda>a. (ma_meter_id a, ma_agent_id a, ma_status a))
                (meter_assignments (run ?calls store_0))
              = [(1, 10, COMPLETED), (2, 10, PENDING), (3, 11, PENDING), (1, 11, PENDING)]"
    by (simp add: eval_defs store_0_defs)
  from one_active_per_meter_preserved [OF h1 h2] h1 h2 rows show ?thesis by blast
qed

text \<open>
  The claim C1 as the specification states it fails. From the small store, which has no
  assignment: assign meter A to X, complete that assignment, assign meter A to Y, and set
  the first assignment back to pending. Every call succeeds, and meter A ends with two
  pending assignments.
\<close>

theorem one_active_per_meter_counterexample:
  "one_active_per_meter store_0 \<and>
   map (\<lambda>a. (ma_meter_id a, ma_agent_id a, ma_status a)) (meter_assignments (run
     [CreateAssignment \<lparr>c_meter_id = 1, c_agent_id = 10, c_estimated_time = None\<rparr> 2,
      UpdateAssignment 1 (status_update COMPLETED) 7,
      CreateAssignment \<lparr>c_meter_id = 1, c_agent_id = 11, c_estimated_time = None\<rparr> 8,
      UpdateAssignment 1 (status_update PENDING) 9] store_0))
   = [(1, 10, PENDING), (1, 11, PENDING)] \<and>
   \<not> one_active_per_meter (run
     [CreateAssignment \<lparr>c_meter_id = 1, c_agent_id = 10, c_estimated_time = None\<rparr> 2,
      UpdateAssignment 1 (status_update COMPLETED) 7,
      CreateAssignment \<lparr>c_meter_id = 1, c_agent_id = 11, c_estimated_time = None\<rparr> 8,
      UpdateAssignment 1 (status_update PENDING) 9] store_0)"
  by (simp add: eval_defs store_0_defs)

end
